theory Spec2Isabelle
  imports Complex_Main
begin

section \<open>Floating-point values\<close>

text \<open>
  The program computes with IEEE doubles (Python floats, NumPy float64). A value is
  modelled as a real number or one of the three special values. Arithmetic on finite
  values is exact (rounding and overflow are not modelled, and zero carries no sign);
  the special values follow IEEE 754: NumPy and pandas do not raise on a division by
  zero, they return an infinity or NaN.
\<close>

datatype fl = Fin real | PInf | NInf | NaN

fun fl_neg :: "fl \<Rightarrow> fl" where
  "fl_neg (Fin x) = Fin (- x)"
| "fl_neg PInf = NInf"
| "fl_neg NInf = PInf"
| "fl_neg NaN = NaN"

fun fl_abs :: "fl \<Rightarrow> fl" where
  "fl_abs (Fin x) = Fin \<bar>x\<bar>"
| "fl_abs PInf = PInf"
| "fl_abs NInf = PInf"
| "fl_abs NaN = NaN"

fun fl_add :: "fl \<Rightarrow> fl \<Rightarrow> fl" where
  "fl_add (Fin x) (Fin y) = Fin (x + y)"
| "fl_add NaN _ = NaN"
| "fl_add _ NaN = NaN"
| "fl_add PInf NInf = NaN"
| "fl_add NInf PInf = NaN"
| "fl_add PInf _ = PInf"
| "fl_add _ PInf = PInf"
| "fl_add NInf _ = NInf"
| "fl_add _ NInf = NInf"

definition fl_sub :: "fl \<Rightarrow> fl \<Rightarrow> fl" where
  "fl_sub a b = fl_add a (fl_neg b)"

fun fl_mul :: "fl \<Rightarrow> fl \<Rightarrow> fl" where
  "fl_mul (Fin x) (Fin y) = Fin (x * y)"
| "fl_mul NaN _ = NaN"
| "fl_mul _ NaN = NaN"
| "fl_mul PInf (Fin y) = (if y = 0 then NaN else if 0 < y then PInf else NInf)"
| "fl_mul NInf (Fin y) = (if y = 0 then NaN else if 0 < y then NInf else PInf)"
| "fl_mul (Fin x) PInf = (if x = 0 then NaN else if 0 < x then PInf else NInf)"
| "fl_mul (Fin x) NInf = (if x = 0 then NaN else if 0 < x then NInf else PInf)"
| "fl_mul PInf PInf = PInf"
| "fl_mul PInf NInf = NInf"
| "fl_mul NInf PInf = NInf"
| "fl_mul NInf NInf = PInf"

fun fl_div :: "fl \<Rightarrow> fl \<Rightarrow> fl" where
  "fl_div (Fin x) (Fin y) =
     (if y = 0 then (if x = 0 then NaN else if 0 < x then PInf else NInf)
      else Fin (x / y))"
| "fl_div NaN _ = NaN"
| "fl_div _ NaN = NaN"
| "fl_div (Fin x) PInf = Fin 0"
| "fl_div (Fin x) NInf = Fin 0"
| "fl_div PInf (Fin y) = (if 0 \<le> y then PInf else NInf)"
| "fl_div NInf (Fin y) = (if 0 \<le> y then NInf else PInf)"
| "fl_div PInf PInf = NaN"
| "fl_div PInf NInf = NaN"
| "fl_div NInf PInf = NaN"
| "fl_div NInf NInf = NaN"

fun fl_sqrt :: "fl \<Rightarrow> fl" where
  "fl_sqrt (Fin x) = (if x < 0 then NaN else Fin (sqrt x))"
| "fl_sqrt PInf = PInf"
| "fl_sqrt NInf = NaN"
| "fl_sqrt NaN = NaN"

text \<open>Comparisons: every comparison with NaN is false.\<close>

fun fl_lt :: "fl \<Rightarrow> fl \<Rightarrow> bool" where
  "fl_lt (Fin x) (Fin y) = (x < y)"
| "fl_lt NaN _ = False"
| "fl_lt _ NaN = False"
| "fl_lt PInf _ = False"
| "fl_lt _ NInf = False"
| "fl_lt NInf _ = True"
| "fl_lt _ PInf = True"

fun fl_eq :: "fl \<Rightarrow> fl \<Rightarrow> bool" where
  "fl_eq NaN _ = False"
| "fl_eq _ NaN = False"
| "fl_eq a b = (a = b)"

definition fl_le :: "fl \<Rightarrow> fl \<Rightarrow> bool" where
  "fl_le a b = (fl_lt a b \<or> fl_eq a b)"

text \<open>
  Python's built-in two-argument \<open>max(a, b)\<close> and \<open>min(a, b)\<close> start from the first
  argument and replace it only when the second compares strictly greater (smaller).
\<close>

definition py_max :: "fl \<Rightarrow> fl \<Rightarrow> fl" where
  "py_max a b = (if fl_lt a b then b else a)"

definition py_min :: "fl \<Rightarrow> fl \<Rightarrow> fl" where
  "py_min a b = (if fl_lt b a then b else a)"

definition fl_sum :: "fl list \<Rightarrow> fl" where
  "fl_sum xs = foldl fl_add (Fin 0) xs"

definition is_fin :: "fl \<Rightarrow> bool" where
  "is_fin a = (case a of Fin _ \<Rightarrow> True | _ \<Rightarrow> False)"

definition fin_val :: "fl \<Rightarrow> real" where
  "fin_val a = (case a of Fin x \<Rightarrow> x | _ \<Rightarrow> 0)"

section \<open>The pandas and NumPy operations the program calls\<close>

text \<open>
  \<open>Series.pct_change()\<close>: the first entry is NaN, entry \<open>t\<close> is
  \<open>close t / close (t - 1) - 1\<close>.
\<close>

definition pct_change :: "real list \<Rightarrow> fl list" where
  "pct_change cs =
     (case cs of [] \<Rightarrow> []
      | _ # rest \<Rightarrow> NaN # map2 (\<lambda>p c. fl_sub (fl_div (Fin c) (Fin p)) (Fin 1)) cs rest)"

definition dropna :: "fl list \<Rightarrow> fl list" where
  "dropna xs = filter (\<lambda>x. x \<noteq> NaN) xs"

text \<open>\<open>Series.mean()\<close> skips NaN entries; the mean of no entries is NaN.\<close>

definition series_mean :: "fl list \<Rightarrow> fl" where
  "series_mean xs =
     (let ys = dropna xs
      in if ys = [] then NaN else fl_div (fl_sum ys) (Fin (real (length ys))))"

text \<open>
  \<open>Series.std(ddof)\<close> skips NaN entries and divides the sum of squared deviations by
  \<open>count - ddof\<close>; it is NaN when \<open>count \<le> ddof\<close>. The method's default is
  \<open>ddof = 1\<close>; \<open>np.std(series)\<close> calls the method with NumPy's default \<open>ddof = 0\<close>.
\<close>

definition series_std :: "nat \<Rightarrow> fl list \<Rightarrow> fl" where
  "series_std ddof xs =
     (let ys = dropna xs; n = length ys
      in if n \<le> ddof then NaN
         else let avg = fl_div (fl_sum ys) (Fin (real n));
                  sqr = map (\<lambda>y. fl_mul (fl_sub avg y) (fl_sub avg y)) ys
              in fl_sqrt (fl_div (fl_sum sqr) (Fin (real (n - ddof)))))"

definition np_std :: "fl list \<Rightarrow> fl" where
  "np_std xs = series_std 0 xs"

text \<open>
  \<open>np.polyfit(np.arange(n), ys, 1)\<close>: for at least two finite points the fit is the
  ordinary least-squares line, whose slope has the closed form below.
\<close>

definition ols_slope :: "real list \<Rightarrow> real" where
  "ols_slope ys =
     (let n = real (length ys);
          xs = map real [0..<length ys];
          sx = sum_list xs;
          sy = sum_list ys;
          sxy = sum_list (map2 (*) xs ys);
          sxx = sum_list (map (\<lambda>x. x * x) xs)
      in (n * sxy - sx * sy) / (n * sxx - sx * sx))"

datatype error = TypeError | AttributeError | LinAlgError

text \<open>
  On a single point, or on data holding an infinity or NaN, the least-squares problem
  is not well posed and what \<open>np.polyfit\<close> does (raise \<open>LinAlgError\<close>, or return some
  value under a warning) is decided inside NumPy and LAPACK. That behaviour is the
  parameter \<open>degenerate\<close>.
\<close>

definition polyfit_slope :: "(fl list \<Rightarrow> error + fl) \<Rightarrow> fl list \<Rightarrow> error + fl" where
  "polyfit_slope degenerate ys =
     (if 2 \<le> length ys \<and> list_all is_fin ys
      then Inr (Fin (ols_slope (map fin_val ys)))
      else degenerate ys)"

text \<open>\<open>np.min\<close> and \<open>np.max\<close> of a non-empty array: NaN if any entry is NaN.\<close>

definition np_min :: "fl list \<Rightarrow> fl" where
  "np_min xs = (if NaN \<in> set xs then NaN else foldl py_min (hd xs) (tl xs))"

definition np_max :: "fl list \<Rightarrow> fl" where
  "np_max xs = (if NaN \<in> set xs then NaN else foldl py_max (hd xs) (tl xs))"

definition np_diff :: "fl list \<Rightarrow> fl list" where
  "np_diff xs = map2 (\<lambda>a b. fl_sub b a) xs (tl xs)"

text \<open>
  \<open>Series.ewm(span=s).mean()\<close> with the defaults \<open>adjust=True\<close>, \<open>ignore_na=False\<close>,
  \<open>min_periods=0\<close>, on finite data, as pandas computes it: one pass that keeps the
  running weighted average and the accumulated weight of the past.
\<close>

fun ewm_loop :: "real \<Rightarrow> real \<Rightarrow> real \<Rightarrow> real list \<Rightarrow> real" where
  "ewm_loop alpha weighted old_wt [] = weighted"
| "ewm_loop alpha weighted old_wt (cur # rest) =
     (let old_wt' = old_wt * (1 - alpha);
          weighted' = (if weighted \<noteq> cur
                       then (old_wt' * weighted + 1 * cur) / (old_wt' + 1)
                       else weighted)
      in ewm_loop alpha weighted' (old_wt' + 1) rest)"

definition ewm_mean_last :: "nat \<Rightarrow> real list \<Rightarrow> real" where
  "ewm_mean_last sp xs = ewm_loop (2 / (real sp + 1)) (hd xs) 1 (tl xs)"

section \<open>Data model\<close>

text \<open>One row of the historical OHLC frame; the index of the frame is the date.\<close>

record ohlc =
  row_date :: int
  row_open :: real
  row_high :: real
  row_low :: real
  row_close :: real

type_synonym dataframe = "ohlc list"

record batch =
  prices :: "fl list"
  percentage_changes :: "fl list"
  open_prices :: "fl list"
  high_prices :: "fl list"
  low_prices :: "fl list"

datatype direction = Upward | Downward | Sideways | Unknown

record momentum =
  rsi :: fl
  macd :: fl

record trend =
  trend_direction :: direction
  strength :: fl
  support_level :: fl
  resistance_level :: fl
  momentum_indicators :: momentum

section \<open>predictive\_model.py\<close>

definition empty_batch :: batch where
  "empty_batch = \<lparr>prices = [], percentage_changes = [], open_prices = [],
                  high_prices = [], low_prices = []\<rparr>"

definition neutral_trend :: trend where
  "neutral_trend =
     \<lparr>trend_direction = Unknown, strength = Fin 0, support_level = Fin 0,
      resistance_level = Fin 0,
      momentum_indicators = \<lparr>rsi = Fin 50, macd = Fin 0\<rparr>\<rparr>"

text \<open>\<open>historical_data['close'].tail(20).values\<close>\<close>

definition recent_closes :: "dataframe \<Rightarrow> real list" where
  "recent_closes h = (let cs = map row_close h in drop (length cs - 20) cs)"

definition hist_volatility :: "dataframe \<Rightarrow> fl" where
  "hist_volatility h = np_std (dropna (pct_change (map row_close h)))"

definition trend_strength :: "fl \<Rightarrow> fl \<Rightarrow> fl" where
  "trend_strength pred_slope vol =
     (let norm_pred_slope = fl_div (fl_abs pred_slope) (fl_mul vol (Fin 10))
      in py_min (Fin 100) (py_max (Fin 0) (fl_mul norm_pred_slope (Fin 100))))"

definition rsi_losses :: "real list \<Rightarrow> fl list \<Rightarrow> fl" where
  "rsi_losses recent predicted =
     (let diff = np_diff (map Fin recent @ predicted)
      in fl_abs (fl_sum (filter (\<lambda>d. fl_lt d (Fin 0)) diff)))"

definition rsi_gains :: "real list \<Rightarrow> fl list \<Rightarrow> fl" where
  "rsi_gains recent predicted =
     (let diff = np_diff (map Fin recent @ predicted)
      in fl_sum (filter (\<lambda>d. fl_lt (Fin 0) d) diff))"

definition trend_rsi :: "real list \<Rightarrow> fl list \<Rightarrow> fl" where
  "trend_rsi recent predicted =
     (let gains = rsi_gains recent predicted;
          losses = rsi_losses recent predicted
      in if fl_eq losses (Fin 0) then Fin 100
         else let rs = fl_div gains losses
              in fl_sub (Fin 100) (fl_div (Fin 100) (fl_add (Fin 1) rs)))"

definition trend_macd :: "dataframe \<Rightarrow> fl" where
  "trend_macd h =
     (let ema12 = ewm_mean_last 12 (map row_close h);
          ema26 = ewm_mean_last 26 (map row_close h)
      in Fin (ema12 - ema26))"

definition analyze_trend ::
  "(fl list \<Rightarrow> error + fl) \<Rightarrow> dataframe option \<Rightarrow> batch option \<Rightarrow> error + trend" where
  "analyze_trend degenerate historical_data prediction_data =
     (case historical_data of
        None \<Rightarrow> Inr neutral_trend
      | Some h \<Rightarrow>
          if h = [] then Inr neutral_trend
          else (case prediction_data of
                  None \<Rightarrow> Inl TypeError
                | Some p \<Rightarrow>
                    if prices p = [] then Inr neutral_trend
                    else
                      let recent = recent_closes h;
                          predicted_closes = prices p
                      in (case polyfit_slope degenerate (map Fin recent) of
                            Inl e \<Rightarrow> Inl e
                          | Inr hist_slope \<Rightarrow>
                         (case polyfit_slope degenerate predicted_closes of
                            Inl e \<Rightarrow> Inl e
                          | Inr pred_slope \<Rightarrow>
                              Inr \<lparr>trend_direction =
                                     (if fl_lt (Fin (1 / 1000)) pred_slope then Upward
                                      else if fl_lt pred_slope (Fin (- (1 / 1000))) then Downward
                                      else Sideways),
                                   strength = trend_strength pred_slope (hist_volatility h),
                                   support_level =
                                     fl_mul (py_min (np_min (map Fin recent)) (np_min predicted_closes))
                                            (Fin (98 / 100)),
                                   resistance_level =
                                     fl_mul (py_max (np_max (map Fin recent)) (np_max predicted_closes))
                                            (Fin (102 / 100)),
                                   momentum_indicators =
                                     \<lparr>rsi = trend_rsi recent predicted_closes,
                                      macd = trend_macd h\<rparr>\<rparr>))))"

text \<open>
  The random generator is the sequence of values its successive calls return, with the
  position of the next call. \<open>np.random.normal(0, s)\<close> is \<open>s\<close> times a standard
  normal draw.
\<close>

type_synonym rng = "nat \<Rightarrow> real"

record sim_params =
  mean_return :: fl
  volatility :: fl
  mean_high_low_ratio :: fl
  mean_open_close_diff :: fl

record sim_state =
  last_price :: fl
  rng_pos :: nat
  predicted :: batch

definition historical_params :: "dataframe \<Rightarrow> sim_params" where
  "historical_params h =
     (let closes = map row_close h;
          historical_returns = dropna (pct_change closes);
          high_low_ratio =
            map (\<lambda>r. fl_div (Fin (row_high r - row_low r)) (Fin (row_close r))) h;
          open_close_diff =
            (case h of [] \<Rightarrow> []
             | _ # rest \<Rightarrow>
                 NaN # map2 (\<lambda>prev r. fl_div (Fin (row_open r - row_close prev))
                                              (Fin (row_close prev))) h rest)
      in \<lparr>mean_return = series_mean historical_returns,
          volatility = series_std 1 historical_returns,
          mean_high_low_ratio = series_mean high_low_ratio,
          mean_open_close_diff = series_mean (dropna open_close_diff)\<rparr>)"

definition price_range :: "sim_params \<Rightarrow> fl \<Rightarrow> real \<Rightarrow> fl" where
  "price_range ps new_price u =
     fl_mul (fl_mul new_price (mean_high_low_ratio ps))
            (fl_add (Fin (8 / 10)) (fl_mul (Fin (4 / 10)) (Fin u)))"

text \<open>One pass of the body of the \<open>for _ in range(days)\<close> loop.\<close>

definition predict_step :: "sim_params \<Rightarrow> rng \<Rightarrow> sim_state \<Rightarrow> sim_state" where
  "predict_step ps g st =
     (let random_factor = Fin (g (rng_pos st));
          daily_return = fl_add (mean_return ps) (fl_mul random_factor (volatility ps));
          percentage_change = fl_mul daily_return (Fin 100);
          new_price = fl_mul (last_price st) (fl_add (Fin 1) daily_return);
          noise = fl_mul (fl_div (volatility ps) (Fin 2)) (Fin (g (rng_pos st + 1)));
          open_price = fl_mul (last_price st)
                         (fl_add (fl_add (Fin 1) (mean_open_close_diff ps)) noise);
          range = price_range ps new_price (g (rng_pos st + 2));
          high_price = fl_add (py_max new_price open_price) (fl_div range (Fin 2));
          low_price = fl_sub (py_min new_price open_price) (fl_div range (Fin 2));
          b = predicted st
      in \<lparr>last_price = new_price,
          rng_pos = rng_pos st + 3,
          predicted =
            \<lparr>prices = prices b @ [new_price],
             percentage_changes = percentage_changes b @ [percentage_change],
             open_prices = open_prices b @ [open_price],
             high_prices = high_prices b @ [high_price],
             low_prices = low_prices b @ [low_price]\<rparr>\<rparr>)"

fun predict_loop :: "sim_params \<Rightarrow> rng \<Rightarrow> nat \<Rightarrow> sim_state \<Rightarrow> sim_state" where
  "predict_loop ps g 0 st = st"
| "predict_loop ps g (Suc k) st = predict_loop ps g k (predict_step ps g st)"

text \<open>
  \<open>generate_predictions\<close> returns the batch and leaves the generator advanced: the
  result is the batch with the position of the generator's next call.
\<close>

definition generate_predictions ::
  "dataframe option \<Rightarrow> real \<Rightarrow> int \<Rightarrow> rng \<Rightarrow> nat \<Rightarrow> batch \<times> nat" where
  "generate_predictions historical_data current_price days g pos =
     (case historical_data of
        None \<Rightarrow> (empty_batch, pos)
      | Some h \<Rightarrow>
          if h = [] then (empty_batch, pos)
          else let st = predict_loop (historical_params h) g (nat days)
                          \<lparr>last_price = Fin current_price, rng_pos = pos,
                           predicted = empty_batch\<rparr>
               in (predicted st, rng_pos st))"

section \<open>stock\_analyzer.py\<close>

record quote =
  name :: string
  price :: real
  price_change_percentage :: real
  previous_close :: real

text \<open>
  The data fetcher is an external collaborator: what its two calls answer for a symbol.
  \<open>None\<close> is Python's \<open>None\<close>; an empty frame is \<open>Some []\<close>.
\<close>

record provider =
  fetch_real_time_data :: "string \<Rightarrow> quote option"
  fetch_historical_data :: "string \<Rightarrow> int \<Rightarrow> dataframe option"

text \<open>
  The analyzer object with its three caches. \<open>random_pos\<close> is the state of NumPy's
  global generator (the position of its next call), which \<open>generate_predictions\<close> advances.
\<close>

record analyzer =
  symbol :: string
  real_time_data_cache :: "quote option"
  historical_data_cache :: "dataframe option"
  predictive_data_cache :: "batch option"
  random_pos :: nat

definition upper_char :: "char \<Rightarrow> char" where
  "upper_char c =
     (let n = (of_char c :: nat) in if 97 \<le> n \<and> n \<le> 122 then char_of (n - 32) else c)"

text \<open>\<open>StockAnalyzer.__init__\<close>; symbols are ASCII tickers.\<close>

definition init_analyzer :: "string \<Rightarrow> nat \<Rightarrow> analyzer" where
  "init_analyzer tick pos =
     \<lparr>symbol = map upper_char tick, real_time_data_cache = None,
      historical_data_cache = None, predictive_data_cache = None, random_pos = pos\<rparr>"

definition get_real_time_data :: "provider \<Rightarrow> analyzer \<Rightarrow> quote option \<times> analyzer" where
  "get_real_time_data pr a =
     (let a' = (if real_time_data_cache a = None
                then a\<lparr>real_time_data_cache := fetch_real_time_data pr (symbol a)\<rparr>
                else a)
      in (real_time_data_cache a', a'))"

definition get_historical_data :: "provider \<Rightarrow> analyzer \<Rightarrow> dataframe option \<times> analyzer" where
  "get_historical_data pr a =
     (let a' = (if historical_data_cache a = None
                then a\<lparr>historical_data_cache := fetch_historical_data pr (symbol a) 30\<rparr>
                else a)
      in (historical_data_cache a', a'))"

definition regenerate :: "analyzer \<Rightarrow> int \<Rightarrow> bool" where
  "regenerate a days =
     (case predictive_data_cache a of
        None \<Rightarrow> True
      | Some b \<Rightarrow> int (length (prices b)) \<noteq> days)"

text \<open>
  An operation of the analyzer returns its result, or the exception it raised, with the
  analyzer as the call left it.
\<close>

definition get_predictive_data ::
  "provider \<Rightarrow> rng \<Rightarrow> int \<Rightarrow> analyzer \<Rightarrow> (error + batch option) \<times> analyzer" where
  "get_predictive_data pr g days a =
     (if regenerate a days then
        (case get_historical_data pr a of
           (historical_data, a1) \<Rightarrow>
             (case historical_data of
                None \<Rightarrow> (Inr (predictive_data_cache a1), a1)
              | Some h \<Rightarrow>
                  if h = [] then (Inr (predictive_data_cache a1), a1)
                  else (case get_real_time_data pr a1 of
                          (real_time_data, a2) \<Rightarrow>
                            (case real_time_data of
                               None \<Rightarrow> (Inl TypeError, a2)
                             | Some q \<Rightarrow>
                                 (case generate_predictions historical_data (price q) days g
                                         (random_pos a2) of
                                    (b, pos') \<Rightarrow>
                                      (Inr (Some b),
                                       a2\<lparr>predictive_data_cache := Some b,
                                          random_pos := pos'\<rparr>))))))
      else (Inr (predictive_data_cache a), a))"

definition get_trend_analysis ::
  "provider \<Rightarrow> rng \<Rightarrow> (fl list \<Rightarrow> error + fl) \<Rightarrow> int \<Rightarrow> analyzer
     \<Rightarrow> (error + trend) \<times> analyzer" where
  "get_trend_analysis pr g degenerate days a =
     (case get_historical_data pr a of
        (historical_data, a1) \<Rightarrow>
          (case get_predictive_data pr g days a1 of
             (Inl e, a2) \<Rightarrow> (Inl e, a2)
           | (Inr predictive_data, a2) \<Rightarrow>
               (analyze_trend degenerate historical_data predictive_data, a2)))"

text \<open>
  Dates are day numbers (the proleptic Gregorian ordinal, day 1 a Monday), so that
  \<open>weekday\<close> is 0 for Monday and 6 for Sunday as \<open>datetime.weekday()\<close> is.
\<close>

definition weekday :: "int \<Rightarrow> int" where
  "weekday d = (d + 6) mod 7"

definition endswith :: "string \<Rightarrow> string \<Rightarrow> bool" where
  "endswith s suffix =
     (length suffix \<le> length s \<and> drop (length s - length suffix) s = suffix)"

definition continuous_market :: "string \<Rightarrow> bool" where
  "continuous_market tick = (endswith tick ''.X'' \<or> endswith tick ''-USD'')"

text \<open>The \<open>while days_added < len(predictive_data['prices'])\<close> loop.\<close>

function date_loop :: "string \<Rightarrow> nat \<Rightarrow> int \<Rightarrow> nat \<Rightarrow> int list \<Rightarrow> int list" where
  "date_loop tick n current_date days_added dates =
     (if days_added < n then
        (let current_date' = current_date + 1
         in if continuous_market tick
            then date_loop tick n current_date' (days_added + 1) (dates @ [current_date'])
            else if weekday current_date' < 5
            then date_loop tick n current_date' (days_added + 1) (dates @ [current_date'])
            else date_loop tick n current_date' days_added dates)
      else dates)"
  by pat_completeness auto
termination
proof (relation "measure (\<lambda>(tick, n, d, k, ds). 7 * (n - k) + nat (6 - weekday d))",
    goal_cases)
  case 1
  show ?case by simp
next
  case (2 tick n d k ds d')
  then show ?case unfolding weekday_def by (simp; presburger)
next
  case (3 tick n d k ds d')
  then show ?case unfolding weekday_def by (simp; presburger)
next
  case (4 tick n d k ds d')
  then show ?case unfolding weekday_def by (simp; presburger)
qed

datatype row_type = Historical | Predictive

record combined_row =
  c_date :: int
  c_open :: fl
  c_high :: fl
  c_low :: fl
  c_close :: fl
  c_type :: row_type

datatype error_c = Raised error | ValueError

definition historical_rows :: "dataframe \<Rightarrow> combined_row list" where
  "historical_rows h =
     map (\<lambda>r. \<lparr>c_date = row_date r, c_open = Fin (row_open r), c_high = Fin (row_high r),
               c_low = Fin (row_low r), c_close = Fin (row_close r),
               c_type = Historical\<rparr>) h"

text \<open>
  \<open>pd.DataFrame({...}, index=dates)\<close>: the four columns and the index must have one
  length, else pandas raises \<open>ValueError\<close>.
\<close>

definition predictive_rows :: "int list \<Rightarrow> batch \<Rightarrow> error_c + combined_row list" where
  "predictive_rows dates b =
     (let n = length dates
      in if length (open_prices b) = n \<and> length (high_prices b) = n
            \<and> length (low_prices b) = n \<and> length (prices b) = n
         then Inr (map (\<lambda>i. \<lparr>c_date = dates ! i, c_open = open_prices b ! i,
                              c_high = high_prices b ! i, c_low = low_prices b ! i,
                              c_close = prices b ! i, c_type = Predictive\<rparr>) [0..<n])
         else Inl ValueError)"

text \<open>\<open>now\<close> is the day \<open>datetime.now()\<close> falls on.\<close>

definition combine_historical_and_predictive ::
  "provider \<Rightarrow> rng \<Rightarrow> int \<Rightarrow> int \<Rightarrow> analyzer
     \<Rightarrow> (error_c + combined_row list) \<times> analyzer" where
  "combine_historical_and_predictive pr g now days a =
     (case get_historical_data pr a of
        (None, a1) \<Rightarrow> (Inl (Raised AttributeError), a1)
      | (Some historical_df, a1) \<Rightarrow>
          (case get_predictive_data pr g days a1 of
             (Inl e, a2) \<Rightarrow> (Inl (Raised e), a2)
           | (Inr predictive_data, a2) \<Rightarrow>
               (case predictive_data of
                  None \<Rightarrow> (Inl (Raised TypeError), a2)
                | Some b \<Rightarrow>
                    let start = (if length historical_df = 0 then now
                                 else row_date (last historical_df));
                        dates = date_loop (symbol a2) (length (prices b)) start 0 []
                    in (case predictive_rows dates b of
                          Inl e \<Rightarrow> (Inl e, a2)
                        | Inr rows \<Rightarrow> (Inr (historical_rows historical_df @ rows), a2)))))"

section \<open>Notions used to state the properties\<close>




definition daily_return :: "sim_params \<Rightarrow> rng \<Rightarrow> nat \<Rightarrow> fl" where
  "daily_return ps g k = fl_add (mean_return ps) (fl_mul (Fin (g k)) (volatility ps))"



section \<open>Empty and missing inputs\<close>

text \<open>
  C4. On a missing or empty history \<open>generate_predictions\<close> returns the empty batch (all
  five lists empty) and does not touch the generator; \<open>analyze_trend\<close> returns the neutral
  default on a missing history, on an empty history, and on a prediction whose price list
  is empty. None of these raises.
\<close>

theorem empty_inputs_give_sentinels:
  "generate_predictions None cp days g pos = (empty_batch, pos)
   \<and> generate_predictions (Some []) cp days g pos = (empty_batch, pos)
   \<and> prices empty_batch = [] \<and> percentage_changes empty_batch = []
   \<and> open_prices empty_batch = [] \<and> high_prices empty_batch = []
   \<and> low_prices empty_batch = []
   \<and> analyze_trend dg None pd = Inr neutral_trend
   \<and> analyze_trend dg (Some []) pd = Inr neutral_trend
   \<and> analyze_trend dg hd_opt (Some (p\<lparr>prices := []\<rparr>)) = Inr neutral_trend
   \<and> neutral_trend =
       \<lparr>trend_direction = Unknown, strength = Fin 0, support_level = Fin 0,
        resistance_level = Fin 0,
        momentum_indicators = \<lparr>rsi = Fin 50, macd = Fin 0\<rparr>\<rparr>"
  by (simp add: generate_predictions_def analyze_trend_def empty_batch_def neutral_trend_def
      split: option.split)

section \<open>The simulation loop\<close>











lemma nth_via_take: "i < n \<Longrightarrow> xs ! i = take n xs ! i"
  by simp







end
